theory Spec2Isabelle
  imports Main
begin

section \<open>JavaScript values, errors and the observable world\<close>

text \<open>
  The two components of the repository, \<^verbatim>\<open>src/components/MultiButton.tsx\<close> and
  \<^verbatim>\<open>src/components/Login.tsx\<close>, are render functions that register event handlers.
  A handler is called by the host (React DOM) with an event object, passed by reference.
  The only things a handler does are calls on external collaborators: the console and
  the event's \<^verbatim>\<open>preventDefault\<close>. Those calls are recorded, in order, in the world.
\<close>

datatype js_error = TypeError

type_synonym address = nat

text \<open>
  The values that can stand for a handler's argument. Numbers are the integer-valued
  ones (the trigger identifiers are integer literals); an object is a reference into
  the heap of event objects.
\<close>

datatype js_value =
    JUndefined
  | JNumber int
  | JString string
  | JSymbol string
  | JObject address

text \<open>
  The part of React's synthetic event the components can touch: its kind, the values of
  the named form controls of its target at dispatch time, and the flag that
  \<^verbatim>\<open>preventDefault()\<close> sets.
\<close>

record synthetic_event =
  event_kind :: string
  form_values :: "(string \<times> string) list"
  defaultPrevented :: bool

text \<open>
  One observable action: a message written to the console, a call of
  \<^verbatim>\<open>preventDefault\<close> on the event at an address, or the host performing the
  default action of the event at an address (for a form submission, the navigation).
\<close>

datatype effect =
    ConsoleLog string
  | PreventDefault address
  | DefaultAction address

record world =
  effects :: "effect list"
  heap :: "address \<Rightarrow> synthetic_event option"
  next_free :: address

definition initial_world :: world where
  "initial_world = \<lparr>effects = [], heap = (\<lambda>a. None), next_free = 0\<rparr>"

fun console_messages :: "effect list \<Rightarrow> string list" where
  "console_messages [] = []"
| "console_messages (ConsoleLog s # es) = s # console_messages es"
| "console_messages (PreventDefault a # es) = console_messages es"
| "console_messages (DefaultAction a # es) = console_messages es"

fun default_actions :: "effect list \<Rightarrow> address list" where
  "default_actions [] = []"
| "default_actions (ConsoleLog s # es) = default_actions es"
| "default_actions (PreventDefault a # es) = default_actions es"
| "default_actions (DefaultAction a # es) = a # default_actions es"

subsection \<open>The primitives the handlers call\<close>

text \<open>\<^verbatim>\<open>console.log(s)\<close>: appends the message to the console; never fails.\<close>

definition console_log :: "string \<Rightarrow> world \<Rightarrow> js_error + world" where
  "console_log s w = Inr (w\<lparr>effects := effects w @ [ConsoleLog s]\<rparr>)"

text \<open>
  \<^verbatim>\<open>event.preventDefault()\<close>: on an event object it sets the flag of that object;
  on anything that is not an object with that method the call raises a TypeError.
\<close>

definition preventDefault :: "js_value \<Rightarrow> world \<Rightarrow> js_error + world" where
  "preventDefault event w =
     (case event of
        JObject a \<Rightarrow>
          (case heap w a of
             Some ev \<Rightarrow>
               Inr (w\<lparr>effects := effects w @ [PreventDefault a],
                      heap := (heap w)(a \<mapsto> ev\<lparr>defaultPrevented := True\<rparr>)\<rparr>)
           | None \<Rightarrow> Inl TypeError)
      | _ \<Rightarrow> Inl TypeError)"

text \<open>
  Decimal digits of a natural number, most significant first. \<open>number_to_string\<close>
  is the conversion of an integer-valued number that JavaScript represents exactly, those
  strictly between \<open>- 2 ^ 53\<close> and \<open>2 ^ 53\<close>: there the number prints as its
  decimal digits. Beyond that range a number is a rounded double, which this model does
  not represent, and nothing is stated about what it prints.
\<close>

definition digit_char :: "nat \<Rightarrow> char" where
  "digit_char d = ''0123456789'' ! d"

fun digits :: "nat \<Rightarrow> string" where
  "digits n = (if n < 10 then [digit_char n] else digits (n div 10) @ [digit_char (n mod 10)])"

declare digits.simps [simp del]

definition number_to_string :: "int \<Rightarrow> string" where
  "number_to_string n = (if n < 0 then ''-'' @ digits (nat (- n)) else digits (nat n))"

text \<open>
  The conversion a template literal \<^verbatim>\<open>`${v}`\<close> applies to \<open>v\<close> (ToString): a
  symbol raises. The objects of this model are the event objects the host creates, which
  inherit the conversion of ordinary objects and give \<^verbatim>\<open>[object Object]\<close>; the
  case \<open>JObject\<close> stands for those. An object without a conversion method, which
  would raise, is not among them, and the theorems of the claims speak of an object only
  where the heap holds an event at its address.
\<close>

fun to_string :: "js_value \<Rightarrow> js_error + string" where
  "to_string JUndefined = Inr ''undefined''"
| "to_string (JNumber n) = Inr (number_to_string n)"
| "to_string (JString s) = Inr s"
| "to_string (JSymbol d) = Inl TypeError"
| "to_string (JObject a) = Inr ''[object Object]''"

section \<open>Rendered trees\<close>

type_synonym handler = "js_value \<Rightarrow> world \<Rightarrow> js_error + world"

record props =
  attrs :: "(string \<times> string) list"
  onClick :: "handler option"
  onSubmit :: "handler option"

definition no_props :: props where
  "no_props = \<lparr>attrs = [], onClick = None, onSubmit = None\<rparr>"

datatype element =
    Element string props "element list"
  | TextNode string

fun props_of :: "element \<Rightarrow> props" where
  "props_of (Element t p cs) = p"
| "props_of (TextNode s) = no_props"

text \<open>The elements of a tree with a given tag, in document order.\<close>

fun elements_by_tag :: "string \<Rightarrow> element \<Rightarrow> element list" where
  "elements_by_tag t (Element t' p cs) =
     (if t' = t then [Element t' p cs] else []) @ concat (map (elements_by_tag t) cs)"
| "elements_by_tag t (TextNode s) = []"

section \<open>MultiButton.tsx\<close>

text \<open>
  \<^verbatim>\<open>
  function handleClick(number: number) {
    console.log(`Button ${number} was clicked`);
  }
  \<close>
\<close>

definition handleClick :: handler where
  "handleClick number w =
     (case to_string number of
        Inl e \<Rightarrow> Inl e
      | Inr s \<Rightarrow> console_log (''Button '' @ s @ '' was clicked'') w)"

text \<open>
  The render function: a \<^verbatim>\<open>div\<close> of three buttons, each with
  \<^verbatim>\<open>onClick={handleClick}\<close>. Rendering threads the world, since a render function
  may call anything; this one calls nothing.
\<close>

definition MultiButton :: "world \<Rightarrow> element \<times> world" where
  "MultiButton w =
     (Element ''div'' no_props
        [Element ''button'' (no_props\<lparr>onClick := Some handleClick\<rparr>) [TextNode ''Button 1''],
         Element ''button'' (no_props\<lparr>onClick := Some handleClick\<rparr>) [TextNode ''Button 2''],
         Element ''button'' (no_props\<lparr>onClick := Some handleClick\<rparr>) [TextNode ''Button 3'']],
      w)"

section \<open>Login.tsx\<close>

text \<open>
  \<^verbatim>\<open>
  function handleSubmit(event: React.FormEvent<HTMLFormElement>) {
    event.preventDefault();
    console.log("I submit");
  }
  \<close>
\<close>

definition handleSubmit :: handler where
  "handleSubmit event w =
     (case preventDefault event w of
        Inl e \<Rightarrow> Inl e
      | Inr w1 \<Rightarrow> console_log ''I submit'' w1)"

definition Login :: "world \<Rightarrow> element \<times> world" where
  "Login w =
     (Element ''form'' (no_props\<lparr>onSubmit := Some handleSubmit\<rparr>)
        [Element ''input''
           (no_props\<lparr>attrs := [(''type'', ''text''), (''name'', ''username''),
                                (''placeholder'', ''Enter username...'')]\<rparr>) [],
         Element ''input''
           (no_props\<lparr>attrs := [(''type'', ''password''), (''name'', ''password''),
                                (''placeholder'', ''Enter password...'')]\<rparr>) [],
         Element ''button'' no_props [TextNode ''Login'']],
      w)"

section \<open>The host environment\<close>

text \<open>
  Modelled from the spec: the host rendering environment (React DOM and the browser) is
  an external collaborator and not among the repository's sources. Section 6 of the
  specification gives what the components consume of it: a callback registered per
  rendered element and interaction type, an event value passed to that callback at
  activation time, and a capability on that value to cancel the default reaction.
  Section 5: one event is dispatched at a time and the handler runs to completion.

  A gesture allocates a fresh event object. No ancestor of a trigger carries a handler
  in the trees of this repository, so dispatch goes to the target's handler only.
\<close>

definition new_event :: "string \<Rightarrow> (string \<times> string) list \<Rightarrow> world \<Rightarrow> address \<times> world" where
  "new_event k fs w =
     (next_free w,
      w\<lparr>heap := (heap w)(next_free w \<mapsto>
             \<lparr>event_kind = k, form_values = fs, defaultPrevented = False\<rparr>),
        next_free := Suc (next_free w)\<rparr>)"

text \<open>
  Modelled from the spec: activating trigger \<open>n\<close> (counted from 1, in document order)
  of a rendered tree calls the \<^verbatim>\<open>onClick\<close> callback of the \<open>n\<close>-th button with the
  click event. A click has no default action on a button outside a form.
\<close>

definition activate :: "nat \<Rightarrow> element \<Rightarrow> world \<Rightarrow> js_error + world" where
  "activate n tree w =
     (let bs = elements_by_tag ''button'' tree in
      if n < 1 \<or> length bs < n then Inr w
      else
        (case onClick (props_of (bs ! (n - 1))) of
           None \<Rightarrow> Inr w
         | Some h \<Rightarrow> (case new_event ''click'' [] w of (a, w1) \<Rightarrow> h (JObject a) w1)))"

text \<open>
  Modelled from the spec: submitting the form of a rendered tree, with the contents
  \<open>fs\<close> of its named fields, calls the form's \<^verbatim>\<open>onSubmit\<close> callback with the submit
  event; when the callback has returned, the host performs the default action
  (the navigation) unless the event's default has been prevented.
\<close>

definition submit :: "(string \<times> string) list \<Rightarrow> element \<Rightarrow> world \<Rightarrow> js_error + world" where
  "submit fs tree w =
     (case elements_by_tag ''form'' tree of
        [] \<Rightarrow> Inr w
      | f # rest \<Rightarrow>
          (case new_event ''submit'' fs w of
             (a, w1) \<Rightarrow>
               (case (case onSubmit (props_of f) of
                        None \<Rightarrow> Inr w1
                      | Some h \<Rightarrow> h (JObject a) w1) of
                  Inl e \<Rightarrow> Inl e
                | Inr w2 \<Rightarrow>
                    (case heap w2 a of
                       Some ev \<Rightarrow>
                         if defaultPrevented ev then Inr w2
                         else Inr (w2\<lparr>effects := effects w2 @ [DefaultAction a]\<rparr>)
                     | None \<Rightarrow> Inr w2))))"

text \<open>
  The console messages a run added, when it returned normally: the messages after the
  run, without those that were there before it. \<open>None\<close> when the run raised.
\<close>

definition emitted :: "world \<Rightarrow> js_error + world \<Rightarrow> string list option" where
  "emitted w r =
     (case r of
        Inl e \<Rightarrow> None
      | Inr w' \<Rightarrow>
          Some (drop (length (console_messages (effects w))) (console_messages (effects w'))))"

section \<open>The lesson's later versions of MultiButton\<close>

text \<open>
  The lesson text shipped with the sources shows two further versions of the component.
  The first binds by invocation, \<^verbatim>\<open>onClick={handleClick(1)}\<close>: the handler runs
  while rendering, and the prop receives what it returns, \<^verbatim>\<open>undefined\<close>, which
  registers nothing.
\<close>

definition MultiButton_invoked :: "world \<Rightarrow> js_error + element \<times> world" where
  "MultiButton_invoked w =
     (case handleClick (JNumber 1) w of
        Inl e \<Rightarrow> Inl e
      | Inr w1 \<Rightarrow>
          (case handleClick (JNumber 2) w1 of
             Inl e \<Rightarrow> Inl e
           | Inr w2 \<Rightarrow>
               (case handleClick (JNumber 3) w2 of
                  Inl e \<Rightarrow> Inl e
                | Inr w3 \<Rightarrow>
                    Inr (Element ''div'' no_props
                           [Element ''button'' no_props [TextNode ''Button 1''],
                            Element ''button'' no_props [TextNode ''Button 2''],
                            Element ''button'' no_props [TextNode ''Button 3'']],
                         w3))))"

text \<open>
  The second binds by an arrow function,
  \<^verbatim>\<open>onClick={() => handleClick(1)}\<close>: the callback ignores the event and passes the
  identifier it has captured.
\<close>

definition MultiButton_arrow :: "world \<Rightarrow> element \<times> world" where
  "MultiButton_arrow w =
     (Element ''div'' no_props
        [Element ''button'' (no_props\<lparr>onClick := Some (\<lambda>event. handleClick (JNumber 1))\<rparr>)
           [TextNode ''Button 1''],
         Element ''button'' (no_props\<lparr>onClick := Some (\<lambda>event. handleClick (JNumber 2))\<rparr>)
           [TextNode ''Button 2''],
         Element ''button'' (no_props\<lparr>onClick := Some (\<lambda>event. handleClick (JNumber 3))\<rparr>)
           [TextNode ''Button 3'']],
      w)"

text \<open>
  A world for the concrete scenarios: the initial one after the host has created a
  submit event (at address 0) for a form with both fields filled in.
\<close>

definition example_world :: world where
  "example_world =
     snd (new_event ''submit'' [(''username'', ''ada''), (''password'', ''hunter2'')]
            initial_world)"

section \<open>Basic facts\<close>

lemma digits_small: "n < 10 \<Longrightarrow> digits n = [digit_char n]"
  by (simp add: digits.simps)

lemma number_to_string_1_2_3:
  "number_to_string 1 = ''1''" "number_to_string 2 = ''2''" "number_to_string 3 = ''3''"
  by (simp_all add: number_to_string_def digits_small digit_char_def)

lemma console_messages_append:
  "console_messages (xs @ ys) = console_messages xs @ console_messages ys"
  by (induction xs rule: console_messages.induct) simp_all

lemma default_actions_append:
  "default_actions (xs @ ys) = default_actions xs @ default_actions ys"
  by (induction xs rule: default_actions.induct) simp_all

lemma example_world_event:
  "heap example_world 0 =
     Some \<lparr>event_kind = ''submit'',
           form_values = [(''username'', ''ada''), (''password'', ''hunter2'')],
           defaultPrevented = False\<rparr>"
  by (simp add: example_world_def new_event_def initial_world_def)

lemma example_world_effects: "effects example_world = []"
  by (simp add: example_world_def new_event_def initial_world_def)

subsection \<open>The handlers\<close>

lemma handleClick_number:
  "handleClick (JNumber n) w =
     Inr (w\<lparr>effects := effects w @
            [ConsoleLog (''Button '' @ number_to_string n @ '' was clicked'')]\<rparr>)"
  by (simp add: handleClick_def console_log_def)

text \<open>
  Called with an event object, as \<^verbatim>\<open>onClick={handleClick}\<close> has it called, the
  handler formats the object, whatever the object is.
\<close>

lemma handleClick_object:
  "handleClick (JObject a) w =
     Inr (w\<lparr>effects := effects w @ [ConsoleLog ''Button [object Object] was clicked'']\<rparr>)"
  by (simp add: handleClick_def console_log_def)

text \<open>The conversion of the template literal is the handler's one error branch.\<close>

lemma handleClick_symbol: "handleClick (JSymbol d) w = Inl TypeError"
  by (simp add: handleClick_def)

lemma handleClick_frame:
  "handleClick v w = Inr w1 \<Longrightarrow> \<exists>s. w1 = w\<lparr>effects := effects w @ [ConsoleLog s]\<rparr>"
  by (cases v) (auto simp add: handleClick_def console_log_def)

lemma handleSubmit_object:
  "heap w a = Some ev \<Longrightarrow>
   handleSubmit (JObject a) w =
     Inr (w\<lparr>effects := effects w @ [PreventDefault a, ConsoleLog ''I submit''],
            heap := (heap w)(a \<mapsto> ev\<lparr>defaultPrevented := True\<rparr>)\<rparr>)"
  by (simp add: handleSubmit_def preventDefault_def console_log_def)

lemma handleSubmit_frame:
  "handleSubmit event w = Inr w2 \<Longrightarrow>
   \<exists>a ev. event = JObject a \<and> heap w a = Some ev \<and>
     w2 = w\<lparr>effects := effects w @ [PreventDefault a, ConsoleLog ''I submit''],
            heap := (heap w)(a \<mapsto> ev\<lparr>defaultPrevented := True\<rparr>)\<rparr>"
  by (auto simp add: handleSubmit_def preventDefault_def console_log_def
      split: js_value.splits option.splits)

lemma handleSubmit_ignores_fields:
  "map_sum id effects
     (handleSubmit (JObject a) (w\<lparr>heap := (heap w)(a \<mapsto> ev\<lparr>form_values := fs\<rparr>)\<rparr>)) =
   map_sum id effects
     (handleSubmit (JObject a) (w\<lparr>heap := (heap w)(a \<mapsto> ev\<lparr>form_values := fs'\<rparr>)\<rparr>))"
  by (simp add: handleSubmit_object)

subsection \<open>Activation of the rendered trees\<close>

lemma emitted_append:
  "effects w' = effects w @ es \<Longrightarrow> emitted w (Inr w') = Some (console_messages es)"
  by (simp add: emitted_def console_messages_append)

lemma buttons_MultiButton:
  "elements_by_tag ''button'' (fst (MultiButton w)) =
     [Element ''button'' (no_props\<lparr>onClick := Some handleClick\<rparr>) [TextNode ''Button 1''],
      Element ''button'' (no_props\<lparr>onClick := Some handleClick\<rparr>) [TextNode ''Button 2''],
      Element ''button'' (no_props\<lparr>onClick := Some handleClick\<rparr>) [TextNode ''Button 3'']]"
  by (simp add: MultiButton_def)

lemma activate_MultiButton:
  "n \<in> {1, 2, 3} \<Longrightarrow>
   activate n (fst (MultiButton w0)) w =
     handleClick (JObject (next_free w)) (snd (new_event ''click'' [] w))"
  by (auto simp add: activate_def buttons_MultiButton new_event_def no_props_def)

lemma activate_MultiButton_out_of_range:
  "n \<notin> {1, 2, 3} \<Longrightarrow> activate n (fst (MultiButton w0)) w = Inr w"
  by (auto simp add: activate_def buttons_MultiButton)

lemma emitted_activate_MultiButton:
  "n \<in> {1, 2, 3} \<Longrightarrow>
   emitted w (activate n (fst (MultiButton w0)) w) =
     Some [''Button [object Object] was clicked'']"
  by (simp add: activate_MultiButton handleClick_object new_event_def emitted_def
      console_messages_append)

lemma forms_Login: "elements_by_tag ''form'' (fst (Login w)) = [fst (Login w)]"
  by (simp add: Login_def)

lemma submit_Login:
  "submit fs (fst (Login w0)) w =
     Inr (w\<lparr>effects := effects w @ [PreventDefault (next_free w), ConsoleLog ''I submit''],
            heap := (heap w)(next_free w \<mapsto>
              \<lparr>event_kind = ''submit'', form_values = fs, defaultPrevented = True\<rparr>),
            next_free := Suc (next_free w)\<rparr>)"
  by (simp add: submit_def forms_Login new_event_def handleSubmit_object)
     (simp add: Login_def no_props_def handleSubmit_object)

lemma submit_Login_ignores_fields:
  "map_sum id effects (submit fs (fst (Login w0)) w) =
   map_sum id effects (submit fs' (fst (Login w0)) w)"
  by (simp add: submit_Login)

text \<open>
  The host does navigate when nothing prevents it: a form without a handler gets the
  default action of its submit event.
\<close>

lemma submit_unhandled_form:
  "\<exists>w'. submit fs (Element ''form'' no_props cs) w = Inr w' \<and>
      default_actions (effects w') = default_actions (effects w) @ [next_free w]"
  by (simp add: submit_def new_event_def no_props_def default_actions_append)

subsection \<open>The lesson's later versions\<close>

lemma activate_no_handlers:
  "activate n
     (Element ''div'' no_props
        [Element ''button'' no_props [TextNode l1], Element ''button'' no_props [TextNode l2],
         Element ''button'' no_props [TextNode l3]]) w = Inr w"
proof -
  have "n < 1 \<or> 3 < n \<or> n = 1 \<or> n = 2 \<or> n = 3" by arith
  then show ?thesis
    by (elim disjE) (simp_all add: activate_def no_props_def Let_def)
qed

text \<open>
  Binding by invocation emits the three messages while rendering, and leaves triggers
  whose activation does nothing.
\<close>

lemma MultiButton_invoked_emits_at_render:
  "\<exists>t w'. MultiButton_invoked w = Inr (t, w') \<and>
     effects w' = effects w @ [ConsoleLog ''Button 1 was clicked'',
       ConsoleLog ''Button 2 was clicked'', ConsoleLog ''Button 3 was clicked''] \<and>
     activate n t w' = Inr w'"
  by (simp add: MultiButton_invoked_def handleClick_number number_to_string_1_2_3
      activate_no_handlers)

lemma buttons_MultiButton_arrow:
  "elements_by_tag ''button'' (fst (MultiButton_arrow w)) =
     [Element ''button'' (no_props\<lparr>onClick := Some (\<lambda>event. handleClick (JNumber 1))\<rparr>)
        [TextNode ''Button 1''],
      Element ''button'' (no_props\<lparr>onClick := Some (\<lambda>event. handleClick (JNumber 2))\<rparr>)
        [TextNode ''Button 2''],
      Element ''button'' (no_props\<lparr>onClick := Some (\<lambda>event. handleClick (JNumber 3))\<rparr>)
        [TextNode ''Button 3'']]"
  by (simp add: MultiButton_arrow_def)

text \<open>Binding by an arrow function makes trigger \<open>n\<close> log \<open>n\<close>.\<close>

lemma MultiButton_arrow_activate:
  "emitted w (activate 1 (fst (MultiButton_arrow w0)) w) = Some [''Button 1 was clicked''] \<and>
   emitted w (activate 2 (fst (MultiButton_arrow w0)) w) = Some [''Button 2 was clicked''] \<and>
   emitted w (activate 3 (fst (MultiButton_arrow w0)) w) = Some [''Button 3 was clicked'']"
  by (simp add: activate_def buttons_MultiButton_arrow no_props_def new_event_def
      handleClick_number number_to_string_1_2_3 emitted_def console_messages_append)

section \<open>The claims about MultiButton\<close>

text \<open>
  Claim C1 says that activating trigger \<open>n\<close> emits exactly one message containing
  \<open>n\<close>, and that trigger 2 emits \<^verbatim>\<open>Button 2 was clicked\<close>. The component as
  shipped registers \<^verbatim>\<open>handleClick\<close> itself, so the host's event object arrives where
  the number is expected: rendering in the initial world and activating trigger 2 emits
  the one message \<^verbatim>\<open>Button [object Object] was clicked\<close>, which is not the message
  the claim states.
\<close>

theorem MultiButton_activate_2_logs_event_object:
  "emitted initial_world
     (activate 2 (fst (MultiButton initial_world)) (snd (MultiButton initial_world))) =
     Some [''Button [object Object] was clicked''] \<and>
   emitted initial_world
     (activate 2 (fst (MultiButton initial_world)) (snd (MultiButton initial_world))) \<noteq>
     Some [''Button 2 was clicked'']"
proof -
  have "snd (MultiButton initial_world) = initial_world"
    by (simp add: MultiButton_def)
  then show ?thesis
    by (simp add: emitted_activate_MultiButton)
qed

text \<open>
  Claim C2: rendering MultiButton alone emits no diagnostic message. In every world the
  render pass returns the world it was given, so no handler has run and the messages it
  added are none.
\<close>

theorem MultiButton_render_emits_nothing:
  "snd (MultiButton w) = w \<and> emitted w (Inr (snd (MultiButton w))) = Some []"
  by (simp add: MultiButton_def emitted_def)

text \<open>
  Claim C3 says that each trigger's handler is bound to the trigger's own identifier by
  closure capture, so that the handler invoked for trigger \<open>n\<close> is determined by
  \<open>n\<close>. In the component as shipped no identifier is captured: activating trigger 1
  and activating trigger 3 of the tree rendered in the initial world emit the same
  message, which names neither.
\<close>

theorem MultiButton_activation_ignores_identifier:
  "emitted initial_world (activate 1 (fst (MultiButton initial_world)) initial_world) =
     Some [''Button [object Object] was clicked''] \<and>
   emitted initial_world (activate 3 (fst (MultiButton initial_world)) initial_world) =
     Some [''Button [object Object] was clicked'']"
  by (simp add: emitted_activate_MultiButton)

text \<open>
  Claim C7: the activation handler of MultiButton has no failure mode on well-formed
  input: it only formats a string and emits it. The well-formed inputs are the numbers,
  which is the declared parameter type, and the live event objects, which is what the
  host passes. For every number the handler returns normally, having written one
  message; for a number strictly between \<open>- 2 ^ 53\<close> and \<open>2 ^ 53\<close> that message
  is the one formatted with its decimal digits; and for every object at whose address
  the heap holds an event the handler returns normally, having written the one message
  formatted with \<^verbatim>\<open>[object Object]\<close>.
\<close>

theorem handleClick_returns_normally:
  "(\<exists>s. handleClick (JNumber n) w = Inr (w\<lparr>effects := effects w @ [ConsoleLog s]\<rparr>)) \<and>
   (- (2 ^ 53) < n \<and> n < 2 ^ 53 \<longrightarrow>
      handleClick (JNumber n) w =
        Inr (w\<lparr>effects := effects w @
               [ConsoleLog (''Button '' @ number_to_string n @ '' was clicked'')]\<rparr>)) \<and>
   (heap w a = Some ev \<longrightarrow>
      handleClick (JObject a) w =
        Inr (w\<lparr>effects := effects w @ [ConsoleLog ''Button [object Object] was clicked'']\<rparr>))"
proof (intro conjI impI)
  show "\<exists>s. handleClick (JNumber n) w = Inr (w\<lparr>effects := effects w @ [ConsoleLog s]\<rparr>)"
    using handleClick_number [of n w] by blast
  show "handleClick (JNumber n) w =
        Inr (w\<lparr>effects := effects w @
               [ConsoleLog (''Button '' @ number_to_string n @ '' was clicked'')]\<rparr>)"
    by (rule handleClick_number)
  show "handleClick (JObject a) w =
        Inr (w\<lparr>effects := effects w @ [ConsoleLog ''Button [object Object] was clicked'']\<rparr>)"
    by (rule handleClick_object)
qed

text \<open>
  At the number 2, and at the live event of the example world (address 0).
\<close>

theorem handleClick_returns_normally_witness:
  "- (2 ^ 53) < (2::int) \<and> (2::int) < 2 ^ 53 \<and>
   handleClick (JNumber 2) example_world =
     Inr (example_world\<lparr>effects := [ConsoleLog ''Button 2 was clicked'']\<rparr>) \<and>
   heap example_world 0 =
     Some \<lparr>event_kind = ''submit'',
           form_values = [(''username'', ''ada''), (''password'', ''hunter2'')],
           defaultPrevented = False\<rparr> \<and>
   handleClick (JObject 0) example_world =
     Inr (example_world\<lparr>effects := [ConsoleLog ''Button [object Object] was clicked'']\<rparr>)"
  using handleClick_returns_normally [where n = 2 and w = example_world and a = 0
      and ev = "\<lparr>event_kind = ''submit'',
           form_values = [(''username'', ''ada''), (''password'', ''hunter2'')],
           defaultPrevented = False\<rparr>"]
  by (simp add: example_world_event example_world_effects number_to_string_1_2_3)

text \<open>
  Claim C10: the three buttons of MultiButton are registered with the identical handler
  function, so what an activation does is the same function of the host's event for
  every trigger: for each of the triggers 1, 2 and 3 it is \<^verbatim>\<open>handleClick\<close> applied
  to the fresh event object, whichever trigger was activated.
\<close>

theorem MultiButton_shared_handler:
  "map (\<lambda>b. onClick (props_of b)) (elements_by_tag ''button'' (fst (MultiButton w0))) =
     [Some handleClick, Some handleClick, Some handleClick] \<and>
   (n \<in> {1, 2, 3} \<longrightarrow>
      activate n (fst (MultiButton w0)) w =
        handleClick (JObject (next_free w)) (snd (new_event ''click'' [] w)))"
  by (simp add: buttons_MultiButton no_props_def activate_MultiButton)

theorem MultiButton_shared_handler_witness:
  "(2::nat) \<in> {1, 2, 3} \<and>
   activate 1 (fst (MultiButton initial_world)) initial_world =
     activate 2 (fst (MultiButton initial_world)) initial_world \<and>
   activate 2 (fst (MultiButton initial_world)) initial_world =
     activate 3 (fst (MultiButton initial_world)) initial_world"
  using MultiButton_shared_handler [of initial_world 1 initial_world]
    MultiButton_shared_handler [of initial_world 2 initial_world]
    MultiButton_shared_handler [of initial_world 3 initial_world]
  by simp

section \<open>The claims about Login\<close>

text \<open>
  Claim C4: every submission of the Login form, whatever the contents \<open>fs\<close> of its
  fields, emits exactly one diagnostic message, and that message is \<^verbatim>\<open>I submit\<close>.
  The submission returns normally; the console afterwards is the console before with
  that one message appended.
\<close>

theorem Login_submit_logs_I_submit:
  "\<exists>w'. submit fs (fst (Login w)) (snd (Login w)) = Inr w' \<and>
     console_messages (effects w') = console_messages (effects w) @ [''I submit''] \<and>
     emitted w (Inr w') = Some [''I submit'']"
proof -
  have "snd (Login w) = w" by (simp add: Login_def)
  then show ?thesis
    by (simp add: submit_Login emitted_def console_messages_append)
qed

text \<open>The scenario of the specification: both fields left empty.\<close>

theorem Login_submit_empty_fields:
  "\<exists>w'. submit [(''username'', []), (''password'', [])]
       (fst (Login initial_world)) (snd (Login initial_world)) = Inr w' \<and>
     console_messages (effects w') = [''I submit'']"
  using Login_submit_logs_I_submit [of "[(''username'', []), (''password'', [])]" initial_world]
  by (auto simp add: initial_world_def)

text \<open>
  Claim C5: on every submission of the Login form, under any field contents, the
  handler calls the event's \<^verbatim>\<open>preventDefault\<close> and the host's default navigation is
  not performed. The submission adds exactly the call of \<^verbatim>\<open>preventDefault\<close> on the
  fresh event and the message; the event ends with its default prevented, and the
  default actions performed are those performed before.
\<close>

theorem Login_submit_prevents_default:
  "\<exists>w' ev. submit fs (fst (Login w)) (snd (Login w)) = Inr w' \<and>
     effects w' = effects w @ [PreventDefault (next_free w), ConsoleLog ''I submit''] \<and>
     default_actions (effects w') = default_actions (effects w) \<and>
     heap w' (next_free w) = Some ev \<and> defaultPrevented ev"
proof -
  have "snd (Login w) = w" by (simp add: Login_def)
  then show ?thesis
    by (simp add: submit_Login default_actions_append)
qed

text \<open>The scenario of the specification: both fields empty, no default action.\<close>

theorem Login_submit_prevents_default_scenario:
  "\<exists>w'. submit [(''username'', []), (''password'', [])]
       (fst (Login initial_world)) (snd (Login initial_world)) = Inr w' \<and>
     effects w' = [PreventDefault 0, ConsoleLog ''I submit''] \<and>
     default_actions (effects w') = []"
  using Login_submit_prevents_default [of "[(''username'', []), (''password'', [])]" initial_world]
  by (auto simp add: initial_world_def)

text \<open>
  Claim C6: in the submission handler the call of \<^verbatim>\<open>preventDefault\<close> comes first,
  before the diagnostic emission, on every invocation. The handler is a function from
  the world to its result, so it runs to completion without suspension. Called with a
  live event object it returns, and what it added to the trace is the call of
  \<^verbatim>\<open>preventDefault\<close> followed by the message; whenever it returns, its trace is of
  that shape; and when the call of \<^verbatim>\<open>preventDefault\<close> raises, the handler raises
  with it, nothing having been emitted.
\<close>

theorem handleSubmit_preventDefault_first:
  "(heap w a = Some ev \<longrightarrow>
      (\<exists>w'. handleSubmit (JObject a) w = Inr w' \<and>
         effects w' = effects w @ [PreventDefault a, ConsoleLog ''I submit''])) \<and>
   (handleSubmit event w = Inr w1 \<longrightarrow>
      (\<exists>b. event = JObject b \<and>
         effects w1 = effects w @ [PreventDefault b, ConsoleLog ''I submit''])) \<and>
   (preventDefault event w = Inl e \<longrightarrow> handleSubmit event w = Inl e)"
proof (intro conjI impI)
  assume "heap w a = Some ev"
  then show "\<exists>w'. handleSubmit (JObject a) w = Inr w' \<and>
         effects w' = effects w @ [PreventDefault a, ConsoleLog ''I submit'']"
    by (simp add: handleSubmit_object)
next
  assume "handleSubmit event w = Inr w1"
  then obtain b ev' where "event = JObject b"
    and "w1 = w\<lparr>effects := effects w @ [PreventDefault b, ConsoleLog ''I submit''],
              heap := (heap w)(b \<mapsto> ev'\<lparr>defaultPrevented := True\<rparr>)\<rparr>"
    using handleSubmit_frame by blast
  then show "\<exists>b. event = JObject b \<and>
         effects w1 = effects w @ [PreventDefault b, ConsoleLog ''I submit'']"
    by simp
next
  assume "preventDefault event w = Inl e"
  then show "handleSubmit event w = Inl e"
    by (simp add: handleSubmit_def)
qed

theorem handleSubmit_preventDefault_first_witness:
  "heap example_world 0 =
     Some \<lparr>event_kind = ''submit'',
           form_values = [(''username'', ''ada''), (''password'', ''hunter2'')],
           defaultPrevented = False\<rparr> \<and>
   (\<exists>w'. handleSubmit (JObject 0) example_world = Inr w' \<and>
      effects w' = [PreventDefault 0, ConsoleLog ''I submit'']) \<and>
   preventDefault JUndefined example_world = Inl TypeError \<and>
   handleSubmit JUndefined example_world = Inl TypeError"
  using handleSubmit_preventDefault_first [where w = example_world and a = 0
      and ev = "\<lparr>event_kind = ''submit'',
           form_values = [(''username'', ''ada''), (''password'', ''hunter2'')],
           defaultPrevented = False\<rparr>" and event = JUndefined and e = TypeError]
  by (simp add: example_world_event example_world_effects preventDefault_def)

section \<open>The claims about both components\<close>

text \<open>
  Claim C8: the only observable effects of a handler invocation are the diagnostic
  emission and, for the Login form, the one call of \<^verbatim>\<open>preventDefault\<close>; no other
  state changes, and the field contents are never read. Whenever \<^verbatim>\<open>handleClick\<close>
  returns, the world is the one before with one console message appended. Whenever
  \<^verbatim>\<open>handleSubmit\<close> returns, the world is the one before with the call and the
  message appended and the flag of its event set: the event's other fields, every other
  object and the allocator are as before. What \<^verbatim>\<open>handleSubmit\<close> does is the same
  for any two contents of the event's form fields, and so is what a submission of the
  rendered form does.
\<close>

theorem handlers_frame:
  "(handleClick v w = Inr w1 \<longrightarrow> (\<exists>s. w1 = w\<lparr>effects := effects w @ [ConsoleLog s]\<rparr>)) \<and>
   (handleSubmit event w = Inr w2 \<longrightarrow>
      (\<exists>a ev. event = JObject a \<and> heap w a = Some ev \<and>
         w2 = w\<lparr>effects := effects w @ [PreventDefault a, ConsoleLog ''I submit''],
                heap := (heap w)(a \<mapsto> ev\<lparr>defaultPrevented := True\<rparr>)\<rparr>)) \<and>
   map_sum id effects
     (handleSubmit (JObject b) (w\<lparr>heap := (heap w)(b \<mapsto> e\<lparr>form_values := fs\<rparr>)\<rparr>)) =
   map_sum id effects
     (handleSubmit (JObject b) (w\<lparr>heap := (heap w)(b \<mapsto> e\<lparr>form_values := fs'\<rparr>)\<rparr>)) \<and>
   map_sum id effects (submit fs (fst (Login w0)) w) =
   map_sum id effects (submit fs' (fst (Login w0)) w)"
  using handleClick_frame [of v w w1] handleSubmit_frame [of event w w2]
    handleSubmit_ignores_fields submit_Login_ignores_fields
  by blast

theorem handlers_frame_witness:
  "handleClick (JObject 0) example_world =
     Inr (example_world\<lparr>effects := [ConsoleLog ''Button [object Object] was clicked'']\<rparr>) \<and>
   handleSubmit (JObject 0) example_world =
     Inr (example_world\<lparr>effects := [PreventDefault 0, ConsoleLog ''I submit''],
            heap := (heap example_world)(0 \<mapsto>
              \<lparr>event_kind = ''submit'',
               form_values = [(''username'', ''ada''), (''password'', ''hunter2'')],
               defaultPrevented = True\<rparr>)\<rparr>) \<and>
   (\<exists>s. example_world\<lparr>effects := [ConsoleLog ''Button [object Object] was clicked'']\<rparr> =
      example_world\<lparr>effects := effects example_world @ [ConsoleLog s]\<rparr>)"
  using handlers_frame [where v = "JObject 0" and w = example_world and event = "JObject 0"
      and ?w1.0 = "example_world\<lparr>effects := [ConsoleLog ''Button [object Object] was clicked'']\<rparr>"]
  by (simp add: handleClick_object handleSubmit_object example_world_event example_world_effects)

text \<open>
  Claim C9: both components are deterministic and stateless. The tree a render call
  returns is the same in any two worlds; the messages an activation of trigger \<open>n\<close>
  emits are the same in any two worlds, and so are the messages a submission emits.
  The worlds are arbitrary, so the second may be the one the first activation left:
  nothing is carried from one activation to the next.
\<close>

theorem components_stateless:
  "fst (MultiButton w1) = fst (MultiButton w2) \<and>
   fst (Login w1) = fst (Login w2) \<and>
   emitted w1 (activate n (fst (MultiButton w0)) w1) =
     emitted w2 (activate n (fst (MultiButton w0)) w2) \<and>
   emitted w1 (submit fs (fst (Login w0)) w1) = emitted w2 (submit fs (fst (Login w0)) w2)"
proof (intro conjI)
  show "fst (MultiButton w1) = fst (MultiButton w2)"
    by (simp add: MultiButton_def)
  show "fst (Login w1) = fst (Login w2)"
    by (simp add: Login_def)
  show "emitted w1 (activate n (fst (MultiButton w0)) w1) =
     emitted w2 (activate n (fst (MultiButton w0)) w2)"
  proof (cases "n \<in> {1, 2, 3}")
    case True
    then show ?thesis by (simp only: emitted_activate_MultiButton)
  next
    case False
    then show ?thesis
      by (simp add: activate_MultiButton_out_of_range emitted_def)
  qed
  show "emitted w1 (submit fs (fst (Login w0)) w1) = emitted w2 (submit fs (fst (Login w0)) w2)"
    by (simp add: submit_Login emitted_def console_messages_append)
qed

end
